theory Spec2Isabelle
  imports Complex_Main
begin

section \<open>Strings as the motor controller uses them\<close>

text \<open>
  The controller builds command lines with f-strings (\<^verbatim>\<open>f"SET_SPEED:{effective_speed}"\<close>)
  and recognises acknowledgements with Python's substring test
  (\<^verbatim>\<open>"ACTION:STOP" in response\<close>). Both are modelled on \<open>string\<close>.
\<close>

fun starts_with :: "string \<Rightarrow> string \<Rightarrow> bool" where
  "starts_with [] cs = True"
| "starts_with (p # ps) [] = False"
| "starts_with (p # ps) (c # cs) = (p = c \<and> starts_with ps cs)"

text \<open>\<open>str_in needle haystack\<close> is Python's \<^verbatim>\<open>needle in haystack\<close> on strings.\<close>

fun str_in :: "string \<Rightarrow> string \<Rightarrow> bool" where
  "str_in needle [] = (needle = [])"
| "str_in needle (c # cs) = (starts_with needle (c # cs) \<or> str_in needle cs)"

definition digit_char :: "nat \<Rightarrow> char" where
  "digit_char d = ''0123456789'' ! d"

fun str_nat :: "nat \<Rightarrow> string" where
  "str_nat n = (if n < 10 then [digit_char n] else str_nat (n div 10) @ [digit_char (n mod 10)])"

declare str_nat.simps [simp del]

text \<open>\<open>str_int\<close> is Python's \<^verbatim>\<open>str\<close> on an \<^verbatim>\<open>int\<close>, as the f-string formats it.\<close>

definition str_int :: "int \<Rightarrow> string" where
  "str_int i = (if i < 0 then CHR ''-'' # str_nat (nat (- i)) else str_nat (nat i))"

section \<open>The serial channel (\<^verbatim>\<open>MotorController._send_command\<close>)\<close>

text \<open>
  What the port does on one exchange is not decided by the program, so it is an input:
  \<open>WriteFails\<close> is an exception raised by \<^verbatim>\<open>write\<close> or \<^verbatim>\<open>flush\<close> (caught by
  \<^verbatim>\<open>_send_command\<close>, which then returns \<^verbatim>\<open>None\<close>), \<open>NoReply\<close> is a line written
  with no line read back before the timeout (or an exception while reading, which
  returns \<^verbatim>\<open>None\<close> as well), and \<open>Reply l\<close> is a line written with the stripped line
  \<open>l\<close> read back. The field \<open>device\<close> lists the outcomes of the coming exchanges, one per
  call that reaches the port; a port with no outcome left stays silent. \<open>written\<close> is the
  log of the lines written to the port, oldest first.
\<close>

datatype io_outcome = WriteFails | NoReply | Reply string

record Serial =
  serial_available :: bool
  connection_open :: bool
  written :: "string list"
  device :: "io_outcome list"

text \<open>The canned answers of simulation mode (\<^verbatim>\<open>SERIAL_AVAILABLE\<close> false).\<close>

definition simulated_response :: "string \<Rightarrow> bool \<Rightarrow> string" where
  "simulated_response command expect_response =
     (if expect_response then
        (if str_in ''PING'' command then ''PONG''
         else if str_in ''MOVE'' command \<or> str_in ''TURN'' command
           then ''ACTION:'' @ command @ '':SPEED:50''
         else if str_in ''STOP'' command then ''ACTION:STOP''
         else if str_in ''SET_SPEED'' command then ''ACTION:SPEED_SET:50''
         else if str_in ''STATUS'' command
           then ''STATUS:{\"speed\":50,\"uptime\":12345,\"free_memory\":1500}''
         else ''OK'')
      else ''OK'')"

definition send_command :: "Serial \<Rightarrow> string \<Rightarrow> bool \<Rightarrow> string option \<times> Serial" where
  "send_command ch command expect_response =
     (if \<not> serial_available ch then (Some (simulated_response command expect_response), ch)
      else if \<not> connection_open ch then (None, ch)
      else
        (case device ch of
           [] \<Rightarrow> (None, ch\<lparr>written := written ch @ [command]\<rparr>)
         | WriteFails # rest \<Rightarrow> (None, ch\<lparr>device := rest\<rparr>)
         | NoReply # rest \<Rightarrow> (None, ch\<lparr>written := written ch @ [command], device := rest\<rparr>)
         | Reply l # rest \<Rightarrow>
             (if expect_response \<and> l \<noteq> [] then Some l else None,
              ch\<lparr>written := written ch @ [command], device := rest\<rparr>)))"

text \<open>\<^verbatim>\<open>response and ack in response\<close>: \<^verbatim>\<open>None\<close> and the empty string are falsy.\<close>

definition acknowledged :: "string option \<Rightarrow> string \<Rightarrow> bool" where
  "acknowledged response ack =
     (case response of None \<Rightarrow> False | Some r \<Rightarrow> r \<noteq> [] \<and> str_in ack r)"

section \<open>The motor controller (\<^verbatim>\<open>src/action/motor_controller.py\<close>)\<close>

datatype MotorDirection = FORWARD | BACKWARD | TURN_LEFT | TURN_RIGHT | STOP

record MotorState =
  direction :: MotorDirection
  speed :: int
  is_moving :: bool
  last_command_time :: real

text \<open>
  A state-to-state function cannot tell in which order a call assigns the latch and
  talks to the channel. The controller therefore keeps a log of these two kinds of
  effect, in the order the statements of the source run: \<open>LatchAssigned b\<close> for an
  assignment to \<^verbatim>\<open>self._is_emergency_stopped\<close>, \<open>CommandSent line\<close> for a call of
  \<^verbatim>\<open>self._send_command\<close>. The field \<open>history\<close> is this log, oldest first; it is not
  a field of the Python object and no operation reads it.
\<close>

datatype effect = LatchAssigned bool | CommandSent string

record MotorController =
  serial :: Serial
  motor_state :: MotorState
  max_speed :: int
  base_speed :: int
  is_emergency_stopped :: bool
  history :: "effect list"

text \<open>
  \<^verbatim>\<open>MotorController.__init__\<close>: the two speeds come from the configuration (defaults 100
  and 40); the port is the one the controller will talk to.
\<close>

definition MotorController_init :: "int \<Rightarrow> int \<Rightarrow> Serial \<Rightarrow> MotorController" where
  "MotorController_init cfg_max_speed cfg_base_speed port =
     \<lparr>serial = port,
      motor_state = \<lparr>direction = STOP, speed = 0, is_moving = False, last_command_time = 0\<rparr>,
      max_speed = cfg_max_speed,
      base_speed = cfg_base_speed,
      is_emergency_stopped = False,
      history = []\<rparr>"

text \<open>
  \<^verbatim>\<open>effective_speed = speed or self.motor_state.speed or self.base_speed\<close>: Python's
  \<^verbatim>\<open>or\<close> yields its first truthy operand, and \<^verbatim>\<open>None\<close> and \<^verbatim>\<open>0\<close> are falsy; when
  none is truthy it yields the last operand.
\<close>

definition effective_speed :: "MotorController \<Rightarrow> int option \<Rightarrow> int" where
  "effective_speed mc speed_arg =
     (case speed_arg of
        Some s \<Rightarrow>
          if s \<noteq> 0 then s
          else if speed (motor_state mc) \<noteq> 0 then speed (motor_state mc)
          else base_speed mc
      | None \<Rightarrow>
          if speed (motor_state mc) \<noteq> 0 then speed (motor_state mc)
          else base_speed mc)"

text \<open>
  The four directional operations have the same body but for the command line and the
  direction they record; \<open>directional_move\<close> is that body. \<open>now\<close> is the event loop's
  clock when the acknowledgement is handled.
\<close>

definition directional_move ::
  "string \<Rightarrow> MotorDirection \<Rightarrow> MotorController \<Rightarrow> int option \<Rightarrow> real \<Rightarrow> bool \<times> MotorController" where
  "directional_move command dir mc speed_arg now =
     (if is_emergency_stopped mc then (False, mc)
      else
        let effective = effective_speed mc speed_arg;
            mc1 = (if effective \<noteq> speed (motor_state mc)
                   then mc\<lparr>serial := snd (send_command (serial mc) (''SET_SPEED:'' @ str_int effective) False),
                           history := history mc @ [CommandSent (''SET_SPEED:'' @ str_int effective)],
                           motor_state := (motor_state mc)\<lparr>speed := effective\<rparr>\<rparr>
                   else mc)
        in case send_command (serial mc1) command True of
             (response, ch) \<Rightarrow>
               if acknowledged response (''ACTION:'' @ command)
               then (True, mc1\<lparr>serial := ch, history := history mc1 @ [CommandSent command],
                               motor_state := (motor_state mc1)\<lparr>direction := dir, is_moving := True,
                                                               last_command_time := now\<rparr>\<rparr>)
               else (False, mc1\<lparr>serial := ch, history := history mc1 @ [CommandSent command]\<rparr>))"

definition move_forward :: "MotorController \<Rightarrow> int option \<Rightarrow> real \<Rightarrow> bool \<times> MotorController" where
  "move_forward = directional_move ''MOVE_FORWARD'' FORWARD"

definition move_backward :: "MotorController \<Rightarrow> int option \<Rightarrow> real \<Rightarrow> bool \<times> MotorController" where
  "move_backward = directional_move ''MOVE_BACKWARD'' BACKWARD"

definition turn_left :: "MotorController \<Rightarrow> int option \<Rightarrow> real \<Rightarrow> bool \<times> MotorController" where
  "turn_left = directional_move ''TURN_LEFT'' TURN_LEFT"

definition turn_right :: "MotorController \<Rightarrow> int option \<Rightarrow> real \<Rightarrow> bool \<times> MotorController" where
  "turn_right = directional_move ''TURN_RIGHT'' TURN_RIGHT"

definition stop :: "MotorController \<Rightarrow> real \<Rightarrow> bool \<times> MotorController" where
  "stop mc now =
     (case send_command (serial mc) ''STOP'' True of
        (response, ch) \<Rightarrow>
          if acknowledged response ''ACTION:STOP''
          then (True, mc\<lparr>serial := ch, history := history mc @ [CommandSent ''STOP''],
                         motor_state := (motor_state mc)\<lparr>direction := STOP, is_moving := False,
                                                        last_command_time := now\<rparr>\<rparr>)
          else (False, mc\<lparr>serial := ch, history := history mc @ [CommandSent ''STOP'']\<rparr>))"

definition set_speed :: "MotorController \<Rightarrow> int \<Rightarrow> bool \<times> MotorController" where
  "set_speed mc s =
     (let clamped_speed = max 0 (min s (max_speed mc))
      in case send_command (serial mc) (''SET_SPEED:'' @ str_int clamped_speed) True of
           (response, ch) \<Rightarrow>
             if acknowledged response ''ACTION:SPEED_SET''
             then (True, mc\<lparr>serial := ch,
                            history := history mc @ [CommandSent (''SET_SPEED:'' @ str_int clamped_speed)],
                            motor_state := (motor_state mc)\<lparr>speed := clamped_speed\<rparr>\<rparr>)
             else (False, mc\<lparr>serial := ch,
                             history := history mc @ [CommandSent (''SET_SPEED:'' @ str_int clamped_speed)]\<rparr>))"

text \<open>
  \<^verbatim>\<open>emergency_stop\<close> assigns the latch and then awaits \<^verbatim>\<open>stop()\<close>, whose flag it
  returns.
\<close>

definition emergency_stop :: "MotorController \<Rightarrow> real \<Rightarrow> bool \<times> MotorController" where
  "emergency_stop mc now =
     stop (mc\<lparr>is_emergency_stopped := True,
              history := history mc @ [LatchAssigned True]\<rparr>) now"

definition resume_from_emergency :: "MotorController \<Rightarrow> bool \<times> MotorController" where
  "resume_from_emergency mc =
     (True, mc\<lparr>is_emergency_stopped := False,
                 history := history mc @ [LatchAssigned False]\<rparr>)"

section \<open>The safety monitor (\<^verbatim>\<open>src/action/safety_monitor.py\<close>)\<close>

datatype SafetyLevel = SAFE | WARNING | DANGER | EMERGENCY

datatype SafetyAlert =
  OBSTACLE_TOO_CLOSE | SENSOR_FAILURE | COMMUNICATION_LOST | MANUAL_EMERGENCY | SYSTEM_ERROR

record SafetyStatus =
  level :: SafetyLevel
  active_alerts :: "SafetyAlert list"
  last_sensor_reading :: real
  emergency_stops_count :: int
  is_monitoring_active :: bool

text \<open>
  The monitor holds references to the robot's components, injected by
  \<^verbatim>\<open>set_robot_components\<close> and \<^verbatim>\<open>None\<close> before: \<open>motor_controller\<close> is the controller
  it commands (the monitor is the one that mutates it in this model, as the two objects
  share it by reference), \<open>sensor_manager\<close> says whether a distance source is attached.
  Distances and wall-clock times are Python floats, compared with \<^verbatim>\<open><=\<close> and
  \<^verbatim>\<open>>\<close> and subtracted once, in the communication check; they are modelled as
  reals, so without rounding and without NaN. The three counters are the entries of
  \<^verbatim>\<open>self.stats\<close> that the monitor updates. The LED controller is only ever handed to
  \<^verbatim>\<open>asyncio.create_task\<close>, and no callback is registered anywhere in the repository,
  so neither changes the state the operations below return.
\<close>

record SafetyMonitor =
  min_obstacle_distance :: real
  emergency_stop_distance :: real
  motor_controller :: "MotorController option"
  sensor_manager :: bool
  safety_status :: SafetyStatus
  warnings_triggered :: int
  emergency_stops :: int
  monitoring_loops :: int

definition SafetyMonitor_init :: "real \<Rightarrow> real \<Rightarrow> SafetyMonitor" where
  "SafetyMonitor_init cfg_min_distance_obstacles cfg_emergency_stop_distance =
     \<lparr>min_obstacle_distance = cfg_min_distance_obstacles,
      emergency_stop_distance = cfg_emergency_stop_distance,
      motor_controller = None,
      sensor_manager = False,
      safety_status = \<lparr>level = SAFE, active_alerts = [], last_sensor_reading = 0,
                        emergency_stops_count = 0, is_monitoring_active = False\<rparr>,
      warnings_triggered = 0,
      emergency_stops = 0,
      monitoring_loops = 0\<rparr>"

definition set_robot_components :: "SafetyMonitor \<Rightarrow> MotorController option \<Rightarrow> bool \<Rightarrow> SafetyMonitor" where
  "set_robot_components sm mc sensors = sm\<lparr>motor_controller := mc, sensor_manager := sensors\<rparr>"

text \<open>\<open>now\<close> is the event loop's clock, read by the motor's \<^verbatim>\<open>stop()\<close>.\<close>

definition trigger_emergency_stop :: "SafetyMonitor \<Rightarrow> SafetyAlert \<Rightarrow> real \<Rightarrow> bool \<times> SafetyMonitor" where
  "trigger_emergency_stop sm alert now =
     (let st = safety_status sm;
          sm1 = sm\<lparr>safety_status :=
                      st\<lparr>active_alerts := (if alert \<in> set (active_alerts st) then active_alerts st
                                             else active_alerts st @ [alert]),
                         level := EMERGENCY,
                         emergency_stops_count := emergency_stops_count st + 1\<rparr>,
                    emergency_stops := emergency_stops sm + 1\<rparr>
      in (True,
          case motor_controller sm1 of
            None \<Rightarrow> sm1
          | Some mc \<Rightarrow> sm1\<lparr>motor_controller := Some (snd (emergency_stop mc now))\<rparr>))"

definition manual_emergency_stop :: "SafetyMonitor \<Rightarrow> real \<Rightarrow> bool \<times> SafetyMonitor" where
  "manual_emergency_stop sm now = trigger_emergency_stop sm MANUAL_EMERGENCY now"

definition handle_emergency_obstacle :: "SafetyMonitor \<Rightarrow> real \<Rightarrow> SafetyMonitor" where
  "handle_emergency_obstacle sm now =
     (if OBSTACLE_TOO_CLOSE \<notin> set (active_alerts (safety_status sm))
      then snd (trigger_emergency_stop sm OBSTACLE_TOO_CLOSE now)
      else sm)"

definition handle_warning_obstacle :: "SafetyMonitor \<Rightarrow> SafetyMonitor" where
  "handle_warning_obstacle sm =
     (if level (safety_status sm) = SAFE
      then sm\<lparr>safety_status := (safety_status sm)\<lparr>level := WARNING\<rparr>,
              warnings_triggered := warnings_triggered sm + 1\<rparr>
      else sm)"

text \<open>\<^verbatim>\<open>list.remove\<close> deletes the first occurrence: \<open>remove1\<close>.\<close>

definition clear_obstacle_alerts :: "SafetyMonitor \<Rightarrow> SafetyMonitor" where
  "clear_obstacle_alerts sm =
     (let st = safety_status sm;
          st1 = (if OBSTACLE_TOO_CLOSE \<in> set (active_alerts st)
                 then st\<lparr>active_alerts := remove1 OBSTACLE_TOO_CLOSE (active_alerts st)\<rparr>
                 else st);
          st2 = (if level st1 = WARNING \<or> level st1 = DANGER then st1\<lparr>level := SAFE\<rparr> else st1)
      in sm\<lparr>safety_status := st2\<rparr>)"

definition handle_sensor_failure :: "SafetyMonitor \<Rightarrow> real \<Rightarrow> SafetyMonitor" where
  "handle_sensor_failure sm now =
     (if SENSOR_FAILURE \<notin> set (active_alerts (safety_status sm))
      then
        (let st = safety_status sm;
             sm1 = sm\<lparr>safety_status := st\<lparr>active_alerts := active_alerts st @ [SENSOR_FAILURE],
                                            level := DANGER\<rparr>\<rparr>
         in case motor_controller sm1 of
              None \<Rightarrow> sm1
            | Some mc \<Rightarrow>
                if \<not> is_emergency_stopped mc
                then sm1\<lparr>motor_controller := Some (snd (emergency_stop mc now))\<rparr>
                else sm1)
      else sm)"

text \<open>
  \<open>reading\<close> is what \<^verbatim>\<open>sensor_manager.read_distance()\<close> returns on this tick
  (\<^verbatim>\<open>None\<close> when the sensor fails; the sensor manager catches its own exceptions),
  \<open>t_read\<close> is \<^verbatim>\<open>time.time()\<close> when the reading is recorded.
\<close>

definition check_sensors :: "SafetyMonitor \<Rightarrow> real option \<Rightarrow> real \<Rightarrow> real \<Rightarrow> SafetyMonitor" where
  "check_sensors sm reading t_read now =
     (if sensor_manager sm then
        (case reading of
           Some distance \<Rightarrow>
             (let sm1 = sm\<lparr>safety_status := (safety_status sm)\<lparr>last_sensor_reading := t_read\<rparr>\<rparr>
              in if distance \<le> emergency_stop_distance sm1 then handle_emergency_obstacle sm1 now
                 else if distance \<le> min_obstacle_distance sm1 then handle_warning_obstacle sm1
                 else clear_obstacle_alerts sm1)
         | None \<Rightarrow> handle_sensor_failure sm now)
      else sm)"

text \<open>\<open>t_comm\<close> is \<^verbatim>\<open>time.time()\<close> when the communication check runs.\<close>

definition check_communication :: "SafetyMonitor \<Rightarrow> real \<Rightarrow> SafetyMonitor" where
  "check_communication sm t_comm =
     (let st = safety_status sm
      in if t_comm - last_sensor_reading st > 2 then
           (if COMMUNICATION_LOST \<notin> set (active_alerts st)
            then sm\<lparr>safety_status := st\<lparr>active_alerts := active_alerts st @ [COMMUNICATION_LOST],
                                          level := DANGER\<rparr>\<rparr>
            else sm)
         else sm)"

text \<open>One pass of the body of \<^verbatim>\<open>_monitoring_loop\<close>: a monitoring tick.\<close>

definition monitoring_tick :: "SafetyMonitor \<Rightarrow> real option \<Rightarrow> real \<Rightarrow> real \<Rightarrow> real \<Rightarrow> SafetyMonitor" where
  "monitoring_tick sm reading t_read now t_comm =
     (let sm1 = check_sensors sm reading t_read now;
          sm2 = check_communication sm1 t_comm
      in sm2\<lparr>monitoring_loops := monitoring_loops sm2 + 1\<rparr>)"

text \<open>
  \<open>reading\<close> is what the distance source returns to the re-read of
  \<^verbatim>\<open>resume_after_emergency\<close>.
\<close>

definition resume_after_emergency :: "SafetyMonitor \<Rightarrow> real option \<Rightarrow> bool \<times> SafetyMonitor" where
  "resume_after_emergency sm reading =
     (if sensor_manager sm \<and>
         (case reading of None \<Rightarrow> True | Some distance \<Rightarrow> distance \<le> min_obstacle_distance sm)
      then (False, sm)
      else
        (let sm1 = sm\<lparr>safety_status := (safety_status sm)\<lparr>active_alerts := [], level := SAFE\<rparr>\<rparr>
         in (True,
             case motor_controller sm1 of
               None \<Rightarrow> sm1
             | Some mc \<Rightarrow> sm1\<lparr>motor_controller := Some (snd (resume_from_emergency mc))\<rparr>)))"

definition is_safe_to_move :: "SafetyMonitor \<Rightarrow> bool" where
  "is_safe_to_move sm = (level (safety_status sm) = SAFE \<or> level (safety_status sm) = WARNING)"

text \<open>The order the specification gives the levels: Safe < Warning < Danger < Emergency.\<close>

fun level_rank :: "SafetyLevel \<Rightarrow> nat" where
  "level_rank SAFE = 0"
| "level_rank WARNING = 1"
| "level_rank DANGER = 2"
| "level_rank EMERGENCY = 3"

text \<open>The latch of the attached motor controller, as the monitor sees it.\<close>

definition motor_latched :: "SafetyMonitor \<Rightarrow> bool" where
  "motor_latched sm =
     (case motor_controller sm of None \<Rightarrow> False | Some mc \<Rightarrow> is_emergency_stopped mc)"

section \<open>Observing the channel and the robot\<close>

text \<open>The channel write count, and the lines an operation added to the log.\<close>

definition write_count :: "MotorController \<Rightarrow> nat" where
  "write_count mc = length (written (serial mc))"

definition new_lines :: "MotorController \<Rightarrow> MotorController \<Rightarrow> string list" where
  "new_lines before after = drop (write_count before) (written (serial after))"

text \<open>The port is open and its next exchange does not fail on the write.\<close>

definition accepts_write :: "Serial \<Rightarrow> bool" where
  "accepts_write ch =
     (serial_available ch \<and> connection_open ch \<and>
      (case device ch of WriteFails # rest \<Rightarrow> False | _ \<Rightarrow> True))"

text \<open>
  The operations the rest of the robot performs on the monitor and the motor controller
  it shares with it: the monitoring loop's tick, the integration manager's emergency stop
  and the resume, and the public operations of the motor controller, which the
  integration manager and the repository's scripts call on the controller directly
  (\<^verbatim>\<open>hw_manager.motor_controller.resume_from_emergency()\<close> among them).
\<close>

datatype operation =
    Tick "real option" real real real
  | ManualEmergencyStop real
  | ResumeAfterEmergency "real option"
  | MoveForward "int option" real
  | MoveBackward "int option" real
  | TurnLeft "int option" real
  | TurnRight "int option" real
  | MotorStop real
  | SetSpeed int
  | MotorEmergencyStop real
  | MotorResume

definition on_motor :: "(MotorController \<Rightarrow> bool \<times> MotorController) \<Rightarrow> SafetyMonitor \<Rightarrow> SafetyMonitor" where
  "on_motor f sm =
     (case motor_controller sm of
        None \<Rightarrow> sm
      | Some mc \<Rightarrow> sm\<lparr>motor_controller := Some (snd (f mc))\<rparr>)"

fun perform :: "SafetyMonitor \<Rightarrow> operation \<Rightarrow> SafetyMonitor" where
  "perform sm (Tick reading t_read now t_comm) = monitoring_tick sm reading t_read now t_comm"
| "perform sm (ManualEmergencyStop now) = snd (manual_emergency_stop sm now)"
| "perform sm (ResumeAfterEmergency reading) = snd (resume_after_emergency sm reading)"
| "perform sm (MoveForward speed_arg now) = on_motor (\<lambda>mc. move_forward mc speed_arg now) sm"
| "perform sm (MoveBackward speed_arg now) = on_motor (\<lambda>mc. move_backward mc speed_arg now) sm"
| "perform sm (TurnLeft speed_arg now) = on_motor (\<lambda>mc. turn_left mc speed_arg now) sm"
| "perform sm (TurnRight speed_arg now) = on_motor (\<lambda>mc. turn_right mc speed_arg now) sm"
| "perform sm (MotorStop now) = on_motor (\<lambda>mc. stop mc now) sm"
| "perform sm (SetSpeed s) = on_motor (\<lambda>mc. set_speed mc s) sm"
| "perform sm (MotorEmergencyStop now) = on_motor (\<lambda>mc. emergency_stop mc now) sm"
| "perform sm MotorResume = on_motor resume_from_emergency sm"

text \<open>The states seen between the operations of a run, the starting state first.\<close>

fun observed :: "SafetyMonitor \<Rightarrow> operation list \<Rightarrow> SafetyMonitor list" where
  "observed sm [] = [sm]"
| "observed sm (opn # ops) = sm # observed (perform sm opn) ops"

text \<open>
  Concrete robots: a port with real hardware behind it and the given outcomes to come,
  the simulated port, and the monitor of the default configuration (thresholds 15 and
  10, speeds 100 and 40) with its components attached, as after
  \<^verbatim>\<open>HardwareIntegrationManager.initialize\<close>.
\<close>

definition live_port :: "io_outcome list \<Rightarrow> Serial" where
  "live_port outcomes =
     \<lparr>serial_available = True, connection_open = True, written = [], device = outcomes\<rparr>"

definition simulated_port :: Serial where
  "simulated_port =
     \<lparr>serial_available = False, connection_open = False, written = [], device = []\<rparr>"

definition default_monitor :: "Serial \<Rightarrow> SafetyMonitor" where
  "default_monitor port =
     set_robot_components (SafetyMonitor_init 15 10) (Some (MotorController_init 100 40 port)) True"

text \<open>
  The invariant of the specification's data model: a monitor at level \<open>EMERGENCY\<close> has
  its motor latched.
\<close>

definition latch_invariant :: "SafetyMonitor \<Rightarrow> bool" where
  "latch_invariant sm = (level (safety_status sm) = EMERGENCY \<longrightarrow> motor_latched sm)"

section \<open>The motor latch\<close>

lemma directional_move_latched:
  "is_emergency_stopped mc \<Longrightarrow> directional_move command dir mc speed_arg now = (False, mc)"
  by (simp add: directional_move_def)

lemma stop_keeps_latch: "is_emergency_stopped (snd (stop mc now)) = is_emergency_stopped mc"
  by (simp add: stop_def split: prod.splits)

lemma emergency_stop_latched: "is_emergency_stopped (snd (emergency_stop mc now))"
  by (simp add: emergency_stop_def stop_keeps_latch)

text \<open>
  Claim C2. Every directional move (\<open>move_forward\<close>, \<open>move_backward\<close>, \<open>turn_left\<close>,
  \<open>turn_right\<close>) called while the latch \<open>is_emergency_stopped\<close> is set returns failure and
  returns the controller as it was: nothing is written to the serial channel (the write
  count is the same) and the motor state is unchanged.
\<close>

theorem no_motion_while_stopped:
  assumes "is_emergency_stopped mc"
  shows "move_forward mc speed_arg now = (False, mc) \<and>
         move_backward mc speed_arg now = (False, mc) \<and>
         turn_left mc speed_arg now = (False, mc) \<and>
         turn_right mc speed_arg now = (False, mc) \<and>
         write_count (snd (move_forward mc speed_arg now)) = write_count mc \<and>
         write_count (snd (move_backward mc speed_arg now)) = write_count mc \<and>
         write_count (snd (turn_left mc speed_arg now)) = write_count mc \<and>
         write_count (snd (turn_right mc speed_arg now)) = write_count mc"
  using assms
  by (simp add: move_forward_def move_backward_def turn_left_def turn_right_def
      directional_move_latched)

text \<open>
  A latched controller on a port that would acknowledge the move: \<open>move_forward\<close> at
  speed 40 fails and the write count stays 0.
\<close>

theorem no_motion_while_stopped_witness:
  "is_emergency_stopped
     ((MotorController_init 100 40 (live_port [Reply ''ACTION:MOVE_FORWARD'']))
        \<lparr>is_emergency_stopped := True\<rparr>) \<and>
   move_forward
     ((MotorController_init 100 40 (live_port [Reply ''ACTION:MOVE_FORWARD'']))
        \<lparr>is_emergency_stopped := True\<rparr>) (Some 40) 7
   = (False, (MotorController_init 100 40 (live_port [Reply ''ACTION:MOVE_FORWARD'']))
        \<lparr>is_emergency_stopped := True\<rparr>) \<and>
   write_count (snd (move_forward
     ((MotorController_init 100 40 (live_port [Reply ''ACTION:MOVE_FORWARD'']))
        \<lparr>is_emergency_stopped := True\<rparr>) (Some 40) 7)) = 0"
  using no_motion_while_stopped
    [of "(MotorController_init 100 40 (live_port [Reply ''ACTION:MOVE_FORWARD'']))
           \<lparr>is_emergency_stopped := True\<rparr>" "Some 40" 7]
  by (simp add: MotorController_init_def live_port_def write_count_def)





section \<open>The monitoring tick\<close>

lemma motor_latched_Some:
  "motor_controller sm = Some mc \<Longrightarrow> motor_latched sm = is_emergency_stopped mc"
  by (simp add: motor_latched_def)

lemma trigger_status:
  "level (safety_status (snd (trigger_emergency_stop sm alert now))) = EMERGENCY \<and>
   alert \<in> set (active_alerts (safety_status (snd (trigger_emergency_stop sm alert now)))) \<and>
   set (active_alerts (safety_status sm))
     \<subseteq> set (active_alerts (safety_status (snd (trigger_emergency_stop sm alert now))))"
  by (auto simp: trigger_emergency_stop_def Let_def split: option.splits)

lemma trigger_motor:
  "motor_controller sm = Some mc \<Longrightarrow>
   motor_controller (snd (trigger_emergency_stop sm alert now)) = Some (snd (emergency_stop mc now))"
  by (simp add: trigger_emergency_stop_def Let_def)

lemma check_communication_motor:
  "motor_controller (check_communication sm t_comm) = motor_controller sm"
  by (simp add: check_communication_def Let_def)

lemma check_communication_alerts:
  "set (active_alerts (safety_status sm))
     \<subseteq> set (active_alerts (safety_status (check_communication sm t_comm)))"
  by (auto simp: check_communication_def Let_def)

lemma check_communication_quiet:
  "t_comm - last_sensor_reading (safety_status sm) \<le> 2 \<or>
   COMMUNICATION_LOST \<in> set (active_alerts (safety_status sm)) \<Longrightarrow>
   check_communication sm t_comm = sm"
  by (auto simp: check_communication_def Let_def)

lemma tick_fields:
  "safety_status (monitoring_tick sm reading t_read now t_comm)
     = safety_status (check_communication (check_sensors sm reading t_read now) t_comm) \<and>
   motor_controller (monitoring_tick sm reading t_read now t_comm)
     = motor_controller (check_sensors sm reading t_read now)"
  by (simp add: monitoring_tick_def Let_def check_communication_motor)

lemma check_sensors_emergency:
  assumes "sensor_manager sm"
    and "distance \<le> emergency_stop_distance sm"
    and "OBSTACLE_TOO_CLOSE \<notin> set (active_alerts (safety_status sm))"
  shows "check_sensors sm (Some distance) t_read now
      = snd (trigger_emergency_stop
          (sm\<lparr>safety_status := (safety_status sm)\<lparr>last_sensor_reading := t_read\<rparr>\<rparr>)
          OBSTACLE_TOO_CLOSE now)"
  using assms by (simp add: check_sensors_def Let_def handle_emergency_obstacle_def)

lemma check_sensors_last_reading:
  "sensor_manager sm \<Longrightarrow>
   last_sensor_reading (safety_status (check_sensors sm (Some distance) t_read now)) = t_read"
  by (simp add: check_sensors_def Let_def handle_emergency_obstacle_def handle_warning_obstacle_def
      clear_obstacle_alerts_def trigger_emergency_stop_def split: option.splits)

lemma check_sensors_keeps_comm_lost:
  "COMMUNICATION_LOST \<in> set (active_alerts (safety_status sm)) \<Longrightarrow>
   COMMUNICATION_LOST \<in> set (active_alerts (safety_status (check_sensors sm reading t_read now)))"
  by (auto simp: check_sensors_def Let_def handle_emergency_obstacle_def handle_warning_obstacle_def
      clear_obstacle_alerts_def trigger_emergency_stop_def handle_sensor_failure_def
      split: option.splits)

text \<open>
  When the communication check of a tick with a reading raises no new alert (no more
  than 2 seconds went by since the reading was recorded, or \<open>COMMUNICATION_LOST\<close> is
  active already), the tick ends in the status its sensor check left.
\<close>

lemma tick_quiet:
  assumes "sensor_manager sm"
    and "t_comm - t_read \<le> 2 \<or> COMMUNICATION_LOST \<in> set (active_alerts (safety_status sm))"
  shows "safety_status (monitoring_tick sm (Some distance) t_read now t_comm)
      = safety_status (check_sensors sm (Some distance) t_read now)"
proof -
  let ?sm1 = "check_sensors sm (Some distance) t_read now"
  have "t_comm - last_sensor_reading (safety_status ?sm1) \<le> 2 \<or>
        COMMUNICATION_LOST \<in> set (active_alerts (safety_status ?sm1))"
    using assms check_sensors_last_reading [OF assms(1)] check_sensors_keeps_comm_lost by auto
  then have "check_communication ?sm1 t_comm = ?sm1"
    by (rule check_communication_quiet)
  then show ?thesis by (simp add: tick_fields)
qed

lemma check_sensors_emergency_active:
  assumes "sensor_manager sm"
    and "distance \<le> emergency_stop_distance sm"
    and "OBSTACLE_TOO_CLOSE \<in> set (active_alerts (safety_status sm))"
  shows "check_sensors sm (Some distance) t_read now
      = sm\<lparr>safety_status := (safety_status sm)\<lparr>last_sensor_reading := t_read\<rparr>\<rparr>"
  using assms by (simp add: check_sensors_def Let_def handle_emergency_obstacle_def)

text \<open>
  Claim C3, as amended. Take a tick whose reading is at or below
  \<open>emergency_stop_distance\<close>, on a monitor with a distance source and a motor controller
  attached, where \<open>OBSTACLE_TOO_CLOSE\<close> is either not active yet or active with the level
  at \<open>EMERGENCY\<close> and the motor latched (as every later tick of the same hazard finds
  it). When the sensor check returns, \<open>OBSTACLE_TOO_CLOSE\<close> is active, the level is
  \<open>EMERGENCY\<close> and the motor is latched: by the motor's \<open>emergency_stop\<close>, called inside
  the check, when the alert was not active, and with nothing changed but the time of the
  last reading when it was. At the end of the tick the alert is active and the motor
  latched, and the level is \<open>EMERGENCY\<close> when the tick's communication check raises no
  new alert.
\<close>

theorem emergency_obstacle_tick:
  assumes "sensor_manager sm" and "motor_controller sm = Some mc"
    and "distance \<le> emergency_stop_distance sm"
    and "OBSTACLE_TOO_CLOSE \<in> set (active_alerts (safety_status sm)) \<longrightarrow>
         level (safety_status sm) = EMERGENCY \<and> is_emergency_stopped mc"
  shows "OBSTACLE_TOO_CLOSE
           \<in> set (active_alerts (safety_status (check_sensors sm (Some distance) t_read now))) \<and>
         level (safety_status (check_sensors sm (Some distance) t_read now)) = EMERGENCY \<and>
         motor_latched (check_sensors sm (Some distance) t_read now) \<and>
         motor_controller (check_sensors sm (Some distance) t_read now)
           = Some (if OBSTACLE_TOO_CLOSE \<in> set (active_alerts (safety_status sm)) then mc
                   else snd (emergency_stop mc now)) \<and>
         OBSTACLE_TOO_CLOSE
           \<in> set (active_alerts (safety_status (monitoring_tick sm (Some distance) t_read now t_comm))) \<and>
         motor_latched (monitoring_tick sm (Some distance) t_read now t_comm) \<and>
         (t_comm - t_read \<le> 2 \<or> COMMUNICATION_LOST \<in> set (active_alerts (safety_status sm)) \<longrightarrow>
          level (safety_status (monitoring_tick sm (Some distance) t_read now t_comm)) = EMERGENCY)"
proof -
  let ?sm0 = "sm\<lparr>safety_status := (safety_status sm)\<lparr>last_sensor_reading := t_read\<rparr>\<rparr>"
  let ?sm1 = "check_sensors sm (Some distance) t_read now"
  let ?sm2 = "monitoring_tick sm (Some distance) t_read now t_comm"
  have a1: "OBSTACLE_TOO_CLOSE \<in> set (active_alerts (safety_status ?sm1))"
    and l1: "level (safety_status ?sm1) = EMERGENCY"
    and m1: "motor_controller ?sm1
      = Some (if OBSTACLE_TOO_CLOSE \<in> set (active_alerts (safety_status sm)) then mc
              else snd (emergency_stop mc now))"
  proof -
    show "OBSTACLE_TOO_CLOSE \<in> set (active_alerts (safety_status ?sm1))"
    proof (cases "OBSTACLE_TOO_CLOSE \<in> set (active_alerts (safety_status sm))")
      case True
      then show ?thesis by (simp add: check_sensors_emergency_active [OF assms(1,3)])
    next
      case False
      then show ?thesis
        using trigger_status [of ?sm0 OBSTACLE_TOO_CLOSE now]
        by (simp add: check_sensors_emergency [OF assms(1,3)])
    qed
    show "level (safety_status ?sm1) = EMERGENCY"
    proof (cases "OBSTACLE_TOO_CLOSE \<in> set (active_alerts (safety_status sm))")
      case True
      then show ?thesis using assms(4)
        by (simp add: check_sensors_emergency_active [OF assms(1,3)])
    next
      case False
      then show ?thesis
        using trigger_status [of ?sm0 OBSTACLE_TOO_CLOSE now]
        by (simp add: check_sensors_emergency [OF assms(1,3)])
    qed
    show "motor_controller ?sm1
      = Some (if OBSTACLE_TOO_CLOSE \<in> set (active_alerts (safety_status sm)) then mc
              else snd (emergency_stop mc now))"
    proof (cases "OBSTACLE_TOO_CLOSE \<in> set (active_alerts (safety_status sm))")
      case True
      then show ?thesis using assms(2)
        by (simp add: check_sensors_emergency_active [OF assms(1,3)])
    next
      case False
      then show ?thesis
        using trigger_motor [of ?sm0 mc OBSTACLE_TOO_CLOSE now] assms(2)
        by (simp add: check_sensors_emergency [OF assms(1,3)])
    qed
  qed
  have latched1: "motor_latched ?sm1"
    using assms(4) by (simp add: motor_latched_Some [OF m1] emergency_stop_latched)
  have a2: "OBSTACLE_TOO_CLOSE \<in> set (active_alerts (safety_status ?sm2))"
    using a1 check_communication_alerts [of ?sm1 t_comm] by (auto simp: tick_fields)
  have latched2: "motor_latched ?sm2"
    using latched1 by (simp add: motor_latched_def tick_fields)
  have l2: "level (safety_status ?sm2) = EMERGENCY"
    if "t_comm - t_read \<le> 2 \<or> COMMUNICATION_LOST \<in> set (active_alerts (safety_status sm))"
    using tick_quiet [OF assms(1) that] l1 by simp
  show ?thesis using a1 l1 m1 latched1 a2 latched2 l2 by simp
qed

lemmas robot_defs = default_monitor_def set_robot_components_def SafetyMonitor_init_def
  MotorController_init_def simulated_port_def live_port_def

lemmas tick_defs = monitoring_tick_def check_sensors_def check_communication_def
  handle_emergency_obstacle_def handle_warning_obstacle_def clear_obstacle_alerts_def
  handle_sensor_failure_def trigger_emergency_stop_def emergency_stop_def stop_def
  send_command_def simulated_response_def acknowledged_def motor_latched_def

text \<open>
  The default robot in simulation mode reads 5 on two ticks in a row. The first tick
  finds no alert and ends at \<open>EMERGENCY\<close> with the alert active and the motor latched;
  the second finds the alert active, the level \<open>EMERGENCY\<close> and the motor latched, and
  ends the same way.
\<close>

theorem emergency_obstacle_tick_witness:
  "sensor_manager (default_monitor simulated_port) \<and>
   (5::real) \<le> emergency_stop_distance (default_monitor simulated_port) \<and>
   OBSTACLE_TOO_CLOSE \<notin> set (active_alerts (safety_status (default_monitor simulated_port))) \<and>
   OBSTACLE_TOO_CLOSE \<in> set (active_alerts (safety_status
      (monitoring_tick (default_monitor simulated_port) (Some 5) 100 1 100))) \<and>
   level (safety_status (monitoring_tick (default_monitor simulated_port) (Some 5) 100 1 100)) = EMERGENCY \<and>
   motor_latched (monitoring_tick (default_monitor simulated_port) (Some 5) 100 1 100) \<and>
   level (safety_status
     (monitoring_tick (monitoring_tick (default_monitor simulated_port) (Some 5) 100 1 100)
        (Some 5) 101 2 101)) = EMERGENCY \<and>
   motor_latched
     (monitoring_tick (monitoring_tick (default_monitor simulated_port) (Some 5) 100 1 100)
        (Some 5) 101 2 101)"
proof -
  let ?sm = "default_monitor simulated_port"
  let ?mc = "MotorController_init 100 40 simulated_port"
  let ?sm' = "monitoring_tick ?sm (Some 5) 100 1 100"
  have first: "sensor_manager ?sm \<and> (5::real) \<le> emergency_stop_distance ?sm \<and>
      OBSTACLE_TOO_CLOSE \<notin> set (active_alerts (safety_status ?sm)) \<and>
      OBSTACLE_TOO_CLOSE \<in> set (active_alerts (safety_status ?sm')) \<and>
      level (safety_status ?sm') = EMERGENCY \<and> motor_latched ?sm'"
    using emergency_obstacle_tick [of ?sm ?mc 5 100 1 100]
    by (simp add: robot_defs)
  have attached: "motor_controller ?sm' = Some (snd (emergency_stop ?mc 1))"
    and sensors: "sensor_manager ?sm'" and threshold: "(5::real) \<le> emergency_stop_distance ?sm'"
    by (simp_all add: robot_defs tick_defs Let_def)
  have "OBSTACLE_TOO_CLOSE \<in> set (active_alerts (safety_status ?sm')) \<longrightarrow>
      level (safety_status ?sm') = EMERGENCY \<and> is_emergency_stopped (snd (emergency_stop ?mc 1))"
    using first by (simp add: emergency_stop_latched)
  from emergency_obstacle_tick [OF sensors attached threshold this, of 101 2 101]
  have "level (safety_status (monitoring_tick ?sm' (Some 5) 101 2 101)) = EMERGENCY \<and>
      motor_latched (monitoring_tick ?sm' (Some 5) 101 2 101)"
    by simp
  with first show ?thesis by blast
qed

text \<open>
  Claim C3 as stated fails. Three ticks of the default robot read 5, nothing, 5. The
  first raises \<open>OBSTACLE_TOO_CLOSE\<close> and \<open>EMERGENCY\<close>; the second finds the sensor
  failed and sets \<open>DANGER\<close>; the third reads 5, at most \<open>emergency_stop_distance\<close>,
  finds \<open>OBSTACLE_TOO_CLOSE\<close> active already and does nothing: the tick ends at
  \<open>DANGER\<close>, not \<open>EMERGENCY\<close>. And on a port that never answers the STOP, a first tick
  that reads 5 and whose communication check runs 3 seconds after the reading was
  recorded ends at \<open>DANGER\<close> as well.
\<close>

theorem emergency_reading_without_emergency:
  "(5::real) \<le> emergency_stop_distance
      (monitoring_tick (monitoring_tick (default_monitor simulated_port) (Some 5) 100 1 100) None 101 2 101) \<and>
   level (safety_status
     (monitoring_tick
        (monitoring_tick (monitoring_tick (default_monitor simulated_port) (Some 5) 100 1 100) None 101 2 101)
        (Some 5) 102 3 102)) = DANGER \<and>
   (5::real) \<le> emergency_stop_distance (default_monitor (live_port [NoReply])) \<and>
   level (safety_status
     (monitoring_tick (default_monitor (live_port [NoReply])) (Some 5) 100 1 103)) = DANGER"
  by (simp add: robot_defs tick_defs Let_def)

section \<open>How a tick moves the level\<close>

lemma check_sensors_clear_level:
  assumes "sensor_manager sm" "emergency_stop_distance sm < d" "min_obstacle_distance sm < d"
  shows "level (safety_status (check_sensors sm (Some d) t_read now))
      = (if level (safety_status sm) = WARNING \<or> level (safety_status sm) = DANGER then SAFE
         else level (safety_status sm))"
  using assms by (simp add: check_sensors_def clear_obstacle_alerts_def Let_def)

lemma check_sensors_obstacle_rank:
  assumes "sensor_manager sm" "d \<le> emergency_stop_distance sm \<or> d \<le> min_obstacle_distance sm"
  shows "level_rank (level (safety_status sm))
      \<le> level_rank (level (safety_status (check_sensors sm (Some d) t_read now)))"
  using assms
  by (cases "level (safety_status sm)")
    (auto simp: check_sensors_def handle_emergency_obstacle_def handle_warning_obstacle_def
      trigger_emergency_stop_def Let_def split: option.splits)

lemma check_sensors_from_emergency:
  "level (safety_status sm) = EMERGENCY \<Longrightarrow>
   level (safety_status (check_sensors sm reading t_read now)) \<in> {EMERGENCY, DANGER}"
  by (auto simp: check_sensors_def handle_emergency_obstacle_def handle_warning_obstacle_def
      clear_obstacle_alerts_def handle_sensor_failure_def trigger_emergency_stop_def Let_def
      split: option.splits)

lemma check_communication_level:
  "level (safety_status (check_communication sm t_comm)) \<in> {level (safety_status sm), DANGER}"
  by (simp add: check_communication_def Let_def)

lemma tick_from_emergency:
  assumes "level (safety_status sm) = EMERGENCY"
  shows "level (safety_status (monitoring_tick sm reading t_read now t_comm)) \<in> {EMERGENCY, DANGER}"
  using check_sensors_from_emergency [OF assms, of reading t_read now]
    check_communication_level [of "check_sensors sm reading t_read now" t_comm]
  by (auto simp: tick_fields)

text \<open>
  Claim C4, as amended. A tick whose reading is above both thresholds returns \<open>WARNING\<close>
  and \<open>DANGER\<close> to \<open>SAFE\<close> with no resume, and leaves \<open>SAFE\<close> and \<open>EMERGENCY\<close> as
  they are; a tick whose reading is at or below a threshold never lowers the level (both
  for a monitor with a distance source, on a tick whose communication check raises no
  new alert). No single tick takes \<open>EMERGENCY\<close> to \<open>SAFE\<close> or \<open>WARNING\<close>. A resume
  whose re-read is above \<open>min_obstacle_distance\<close> succeeds and sets \<open>SAFE\<close>.
\<close>

theorem tick_level_changes:
  "(sensor_manager sm \<and>
      (t_comm - t_read \<le> 2 \<or> COMMUNICATION_LOST \<in> set (active_alerts (safety_status sm))) \<and>
      emergency_stop_distance sm < d \<and> min_obstacle_distance sm < d \<longrightarrow>
    level (safety_status (monitoring_tick sm (Some d) t_read now t_comm))
      = (if level (safety_status sm) = WARNING \<or> level (safety_status sm) = DANGER then SAFE
         else level (safety_status sm))) \<and>
   (sensor_manager sm \<and>
      (t_comm - t_read \<le> 2 \<or> COMMUNICATION_LOST \<in> set (active_alerts (safety_status sm))) \<and>
      (d \<le> emergency_stop_distance sm \<or> d \<le> min_obstacle_distance sm) \<longrightarrow>
    level_rank (level (safety_status sm))
      \<le> level_rank (level (safety_status (monitoring_tick sm (Some d) t_read now t_comm)))) \<and>
   (level (safety_status sm) = EMERGENCY \<longrightarrow>
    level (safety_status (monitoring_tick sm reading t_read now t_comm)) \<in> {EMERGENCY, DANGER}) \<and>
   (min_obstacle_distance sm < d \<longrightarrow>
    fst (resume_after_emergency sm (Some d)) \<and>
    level (safety_status (snd (resume_after_emergency sm (Some d)))) = SAFE)"
proof -
  have "level (safety_status (monitoring_tick sm (Some d) t_read now t_comm))
      = (if level (safety_status sm) = WARNING \<or> level (safety_status sm) = DANGER then SAFE
         else level (safety_status sm))"
    if "sensor_manager sm"
      and "t_comm - t_read \<le> 2 \<or> COMMUNICATION_LOST \<in> set (active_alerts (safety_status sm))"
      and "emergency_stop_distance sm < d" and "min_obstacle_distance sm < d"
    using that by (simp add: tick_quiet check_sensors_clear_level)
  moreover have "level_rank (level (safety_status sm))
      \<le> level_rank (level (safety_status (monitoring_tick sm (Some d) t_read now t_comm)))"
    if "sensor_manager sm"
      and "t_comm - t_read \<le> 2 \<or> COMMUNICATION_LOST \<in> set (active_alerts (safety_status sm))"
      and "d \<le> emergency_stop_distance sm \<or> d \<le> min_obstacle_distance sm"
    using that check_sensors_obstacle_rank [of sm d t_read now] by (simp add: tick_quiet)
  moreover have "fst (resume_after_emergency sm (Some d)) \<and>
      level (safety_status (snd (resume_after_emergency sm (Some d)))) = SAFE"
    if "min_obstacle_distance sm < d"
    using that by (simp add: resume_after_emergency_def Let_def split: option.splits)
  ultimately show ?thesis
    using tick_from_emergency [of sm reading t_read now t_comm] by blast
qed

text \<open>
  The default robot: a reading of 12 does not lower the level (it raises \<open>SAFE\<close> to
  \<open>WARNING\<close>), and the next tick, reading 25, returns \<open>WARNING\<close> to \<open>SAFE\<close>.
\<close>

theorem tick_level_changes_witness:
  "level (safety_status (monitoring_tick (default_monitor simulated_port) (Some 12) 100 1 100)) = WARNING \<and>
   level (safety_status (monitoring_tick (monitoring_tick (default_monitor simulated_port) (Some 12) 100 1 100) (Some 25) 101 2 101)) = SAFE \<and>
   level_rank (level (safety_status (default_monitor simulated_port)))
     \<le> level_rank (level (safety_status (monitoring_tick (default_monitor simulated_port) (Some 12) 100 1 100)))"
  using tick_level_changes [of "monitoring_tick (default_monitor simulated_port) (Some 12) 100 1 100" 101 101 25 2 None]
    tick_level_changes [of "default_monitor simulated_port" 100 100 12 1 None]
  by (simp add: robot_defs tick_defs Let_def)

text \<open>
  Claim C4 as stated fails: after a tick that read 12 the level is \<open>WARNING\<close>, and the
  next tick, reading 25, lowers it to \<open>SAFE\<close> with no resume in between.
\<close>

theorem warning_returns_to_safe_by_tick:
  "level (safety_status (monitoring_tick (default_monitor simulated_port) (Some 12) 100 1 100)) = WARNING \<and>
   level (safety_status
     (monitoring_tick (monitoring_tick (default_monitor simulated_port) (Some 12) 100 1 100)
        (Some 25) 101 2 101)) = SAFE \<and>
   level_rank (level (safety_status
     (monitoring_tick (monitoring_tick (default_monitor simulated_port) (Some 12) 100 1 100)
        (Some 25) 101 2 101)))
   < level_rank (level (safety_status (monitoring_tick (default_monitor simulated_port) (Some 12) 100 1 100)))"
  by (simp add: robot_defs tick_defs Let_def)

text \<open>
  Claim C5, as amended. When the distance source returns a reading above
  \<open>emergency_stop_distance\<close> and at or below \<open>min_obstacle_distance\<close> (12, say, under
  the defaults 10 and 15) while the level is \<open>SAFE\<close>, the tick ends at \<open>WARNING\<close> and
  leaves the motor controller, its latch included, as it was, provided the tick's
  communication check raises no new alert.
\<close>

theorem warning_obstacle_tick:
  assumes "sensor_manager sm" and "level (safety_status sm) = SAFE"
    and "emergency_stop_distance sm < d" and "d \<le> min_obstacle_distance sm"
    and "t_comm - t_read \<le> 2 \<or> COMMUNICATION_LOST \<in> set (active_alerts (safety_status sm))"
  shows "level (safety_status (monitoring_tick sm (Some d) t_read now t_comm)) = WARNING \<and>
         motor_controller (monitoring_tick sm (Some d) t_read now t_comm) = motor_controller sm \<and>
         motor_latched (monitoring_tick sm (Some d) t_read now t_comm) = motor_latched sm"
proof -
  have cs: "check_sensors sm (Some d) t_read now
      = handle_warning_obstacle (sm\<lparr>safety_status := (safety_status sm)\<lparr>last_sensor_reading := t_read\<rparr>\<rparr>)"
    using assms(1,3,4) by (simp add: check_sensors_def Let_def)
  have "level (safety_status (check_sensors sm (Some d) t_read now)) = WARNING"
    using assms(2) by (simp add: cs handle_warning_obstacle_def)
  moreover have "motor_controller (check_sensors sm (Some d) t_read now) = motor_controller sm"
    by (simp add: cs handle_warning_obstacle_def)
  ultimately show ?thesis
    using tick_quiet [OF assms(1,5), of d now] by (simp add: tick_fields motor_latched_def)
qed

text \<open>The default robot, reading 12: \<open>WARNING\<close>, and the motor is not latched.\<close>

theorem warning_obstacle_tick_witness:
  "sensor_manager (default_monitor simulated_port) \<and>
   level (safety_status (default_monitor simulated_port)) = SAFE \<and>
   emergency_stop_distance (default_monitor simulated_port) < 12 \<and>
   12 \<le> min_obstacle_distance (default_monitor simulated_port) \<and>
   level (safety_status (monitoring_tick (default_monitor simulated_port) (Some 12) 100 1 100)) = WARNING \<and>
   \<not> motor_latched (monitoring_tick (default_monitor simulated_port) (Some 12) 100 1 100)"
  using warning_obstacle_tick [of "default_monitor simulated_port" 12 100 100 1]
  by (simp add: robot_defs motor_latched_def)

text \<open>
  Claim C5 as stated fails: 25 is above the default \<open>min_obstacle_distance\<close> of 15, so
  the tick of the default robot takes the safe branch and the level stays \<open>SAFE\<close>.
\<close>

theorem reading_25_stays_safe:
  "min_obstacle_distance (default_monitor simulated_port) = 15 \<and>
   emergency_stop_distance (default_monitor simulated_port) = 10 \<and>
   level (safety_status (default_monitor simulated_port)) = SAFE \<and>
   level (safety_status (monitoring_tick (default_monitor simulated_port) (Some 25) 100 1 100)) = SAFE \<and>
   level (safety_status (monitoring_tick (default_monitor simulated_port) (Some 25) 100 1 100)) \<noteq> WARNING"
  by (simp add: robot_defs tick_defs Let_def)

section \<open>Resuming\<close>

text \<open>
  Claim C6. With a distance source attached and the emergency threshold not above the
  warning threshold (as in the default configuration), \<open>resume_after_emergency\<close> called
  while the source returns no reading, or a reading at or below
  \<open>emergency_stop_distance\<close>, returns failure and the monitor as it was: the level, the
  active alerts and the motor latch are unchanged.
\<close>

theorem resume_refused_while_hazard:
  assumes "sensor_manager sm"
    and "emergency_stop_distance sm \<le> min_obstacle_distance sm"
    and "reading = None \<or> (\<exists>d. reading = Some d \<and> d \<le> emergency_stop_distance sm)"
  shows "resume_after_emergency sm reading = (False, sm) \<and>
         safety_status (snd (resume_after_emergency sm reading)) = safety_status sm \<and>
         motor_latched (snd (resume_after_emergency sm reading)) = motor_latched sm"
  using assms by (auto simp: resume_after_emergency_def)

text \<open>
  The default robot after a tick that read 5 is at \<open>EMERGENCY\<close>; a resume that reads 5
  again is refused and the level is still \<open>EMERGENCY\<close>.
\<close>

theorem resume_refused_while_hazard_witness:
  "sensor_manager (monitoring_tick (default_monitor simulated_port) (Some 5) 100 1 100) \<and>
   level (safety_status (monitoring_tick (default_monitor simulated_port) (Some 5) 100 1 100)) = EMERGENCY \<and>
   resume_after_emergency (monitoring_tick (default_monitor simulated_port) (Some 5) 100 1 100) (Some 5)
     = (False, monitoring_tick (default_monitor simulated_port) (Some 5) 100 1 100) \<and>
   level (safety_status (snd (resume_after_emergency
      (monitoring_tick (default_monitor simulated_port) (Some 5) 100 1 100) (Some 5)))) = EMERGENCY"
  using resume_refused_while_hazard
    [of "monitoring_tick (default_monitor simulated_port) (Some 5) 100 1 100" "Some 5"]
  by (simp add: robot_defs tick_defs Let_def)

section \<open>Sensor failure\<close>

text \<open>
  Claim C10. On a tick whose reading is missing, with a distance source and a motor
  controller attached and \<open>SENSOR_FAILURE\<close> not active already, the tick ends with
  \<open>SENSOR_FAILURE\<close> active and the level \<open>DANGER\<close> (the count of emergency stops is
  unchanged: this is not the trigger path), and the motor is latched: by its
  \<open>emergency_stop\<close> when it was not latched before, untouched when it was. So the latch
  is set while the level is \<open>DANGER\<close>.
\<close>

theorem sensor_failure_tick:
  assumes "sensor_manager sm" and "motor_controller sm = Some mc"
    and "SENSOR_FAILURE \<notin> set (active_alerts (safety_status sm))"
  shows "SENSOR_FAILURE \<in> set (active_alerts (safety_status (monitoring_tick sm None t_read now t_comm))) \<and>
         level (safety_status (monitoring_tick sm None t_read now t_comm)) = DANGER \<and>
         emergency_stops_count (safety_status (monitoring_tick sm None t_read now t_comm))
           = emergency_stops_count (safety_status sm) \<and>
         motor_controller (monitoring_tick sm None t_read now t_comm)
           = Some (if is_emergency_stopped mc then mc else snd (emergency_stop mc now)) \<and>
         motor_latched (monitoring_tick sm None t_read now t_comm)"
proof -
  let ?sm1 = "check_sensors sm None t_read now"
  have cs: "?sm1 = handle_sensor_failure sm now"
    using assms(1) by (simp add: check_sensors_def)
  have a1: "SENSOR_FAILURE \<in> set (active_alerts (safety_status ?sm1))"
    and l1: "level (safety_status ?sm1) = DANGER"
    and c1: "emergency_stops_count (safety_status ?sm1) = emergency_stops_count (safety_status sm)"
    and m1: "motor_controller ?sm1 = Some (if is_emergency_stopped mc then mc else snd (emergency_stop mc now))"
    using assms(2,3) by (simp_all add: cs handle_sensor_failure_def Let_def)
  have l2: "level (safety_status (check_communication ?sm1 t_comm)) = DANGER"
    using check_communication_level [of ?sm1 t_comm] l1 by simp
  have c2: "emergency_stops_count (safety_status (check_communication ?sm1 t_comm))
      = emergency_stops_count (safety_status ?sm1)"
    by (simp add: check_communication_def Let_def)
  have "motor_latched ?sm1"
    by (simp add: motor_latched_Some [OF m1] emergency_stop_latched)
  then show ?thesis
    using a1 l2 c1 c2 m1 check_communication_alerts [of ?sm1 t_comm]
    by (auto simp: tick_fields motor_latched_def)
qed

text \<open>
  The default robot on a port that never answers, first tick, no reading: \<open>DANGER\<close>
  with the motor latched.
\<close>

theorem sensor_failure_tick_witness:
  "sensor_manager (default_monitor (live_port [NoReply])) \<and>
   SENSOR_FAILURE \<notin> set (active_alerts (safety_status (default_monitor (live_port [NoReply])))) \<and>
   level (safety_status (monitoring_tick (default_monitor (live_port [NoReply])) None 100 1 100)) = DANGER \<and>
   motor_latched (monitoring_tick (default_monitor (live_port [NoReply])) None 100 1 100)"
  using sensor_failure_tick [of "default_monitor (live_port [NoReply])"
      "MotorController_init 100 40 (live_port [NoReply])" 100 1 100]
  by (simp add: robot_defs)

section \<open>Emergency and the latch\<close>

lemma directional_move_keeps_latch:
  "is_emergency_stopped (snd (directional_move command dir mc speed_arg now)) = is_emergency_stopped mc"
  by (simp add: directional_move_def Let_def split: prod.splits)

lemma set_speed_keeps_latch: "is_emergency_stopped (snd (set_speed mc s)) = is_emergency_stopped mc"
  by (simp add: set_speed_def Let_def split: prod.splits)

lemma on_motor_fields:
  "safety_status (on_motor f sm) = safety_status sm \<and>
   (motor_controller (on_motor f sm) = None) = (motor_controller sm = None)"
  by (simp add: on_motor_def split: option.splits)

lemma on_motor_latched:
  "(\<And>mc. is_emergency_stopped mc \<Longrightarrow> is_emergency_stopped (snd (f mc))) \<Longrightarrow>
   motor_latched sm \<Longrightarrow> motor_latched (on_motor f sm)"
  by (simp add: on_motor_def motor_latched_def split: option.splits)

lemma check_sensors_attached:
  "(motor_controller (check_sensors sm reading t_read now) = None) = (motor_controller sm = None)"
  by (simp add: check_sensors_def handle_emergency_obstacle_def handle_warning_obstacle_def
      clear_obstacle_alerts_def handle_sensor_failure_def trigger_emergency_stop_def Let_def
      split: option.splits)

lemma check_sensors_keeps_latch:
  "motor_latched sm \<Longrightarrow> motor_latched (check_sensors sm reading t_read now)"
  by (auto simp: check_sensors_def handle_emergency_obstacle_def handle_warning_obstacle_def
      clear_obstacle_alerts_def handle_sensor_failure_def trigger_emergency_stop_def Let_def
      motor_latched_def emergency_stop_latched split: option.splits)

lemma check_sensors_raises_latched:
  assumes "motor_controller sm \<noteq> None"
    and "level (safety_status (check_sensors sm reading t_read now)) = EMERGENCY"
  shows "level (safety_status sm) = EMERGENCY \<or> motor_latched (check_sensors sm reading t_read now)"
  using assms
  by (auto simp: check_sensors_def handle_emergency_obstacle_def handle_warning_obstacle_def
      clear_obstacle_alerts_def handle_sensor_failure_def trigger_emergency_stop_def Let_def
      motor_latched_def emergency_stop_latched split: option.splits if_splits)

lemma check_communication_emergency:
  "level (safety_status (check_communication sm t_comm)) = EMERGENCY \<Longrightarrow>
   level (safety_status sm) = EMERGENCY"
  by (auto simp: check_communication_def Let_def split: if_splits)

lemma tick_latched: "motor_latched (monitoring_tick sm reading t_read now t_comm)
   = motor_latched (check_sensors sm reading t_read now)"
  by (simp add: motor_latched_def tick_fields)

lemma trigger_latched:
  "motor_controller sm \<noteq> None \<Longrightarrow> motor_latched (snd (trigger_emergency_stop sm alert now))"
  by (auto simp: trigger_emergency_stop_def Let_def motor_latched_def emergency_stop_latched)

lemma perform_attached:
  "motor_controller sm \<noteq> None \<Longrightarrow> motor_controller (perform sm opn) \<noteq> None"
  by (cases opn)
    (auto simp: on_motor_fields tick_fields check_sensors_attached manual_emergency_stop_def
      trigger_emergency_stop_def resume_after_emergency_def Let_def split: option.splits)

lemma perform_raises_latched:
  assumes "motor_controller sm \<noteq> None"
    and "level (safety_status (perform sm opn)) = EMERGENCY"
    and "level (safety_status sm) \<noteq> EMERGENCY"
  shows "motor_latched (perform sm opn)"
proof (cases opn)
  case (Tick reading t_read now t_comm)
  then have "level (safety_status (check_sensors sm reading t_read now)) = EMERGENCY"
    using assms(2) check_communication_emergency by (simp add: tick_fields)
  then show ?thesis
    using check_sensors_raises_latched [OF assms(1)] assms(3) Tick by (simp add: tick_latched)
next
  case (ManualEmergencyStop now)
  then show ?thesis using assms(1) by (simp add: manual_emergency_stop_def trigger_latched)
next
  case (ResumeAfterEmergency reading)
  then show ?thesis using assms(2,3)
    by (auto simp: resume_after_emergency_def Let_def split: if_splits option.splits)
qed (use assms(2,3) in \<open>simp_all add: on_motor_fields\<close>)

lemma perform_keeps_invariant:
  assumes "motor_controller sm \<noteq> None" and "latch_invariant sm" and "opn \<noteq> MotorResume"
  shows "latch_invariant (perform sm opn)"
proof (cases "level (safety_status sm) = EMERGENCY")
  case False
  then show ?thesis
    using perform_raises_latched [OF assms(1), of opn] by (auto simp: latch_invariant_def)
next
  case True
  then have latched: "motor_latched sm" using assms(2) by (simp add: latch_invariant_def)
  show ?thesis
  proof (cases opn)
    case (Tick reading t_read now t_comm)
    then show ?thesis using latched
      by (simp add: latch_invariant_def tick_latched check_sensors_keeps_latch)
  next
    case (ManualEmergencyStop now)
    then show ?thesis using assms(1)
      by (simp add: latch_invariant_def manual_emergency_stop_def trigger_latched)
  next
    case (ResumeAfterEmergency reading)
    then show ?thesis using latched
      by (auto simp: latch_invariant_def resume_after_emergency_def Let_def split: option.splits)
  next
    case MotorResume
    then show ?thesis using assms(3) by simp
  qed (use latched in \<open>simp_all add: latch_invariant_def on_motor_latched move_forward_def
        move_backward_def turn_left_def turn_right_def directional_move_keeps_latch
        stop_keeps_latch set_speed_keeps_latch emergency_stop_latched\<close>)
qed

lemma observed_invariant:
  assumes "motor_controller sm \<noteq> None" and "latch_invariant sm" and "MotorResume \<notin> set ops"
  shows "\<forall>s \<in> set (observed sm ops). latch_invariant s"
  using assms
proof (induction ops arbitrary: sm)
  case Nil
  then show ?case by simp
next
  case (Cons opn ops)
  have att: "motor_controller (perform sm opn) \<noteq> None"
    using Cons.prems(1) by (rule perform_attached)
  have "opn \<noteq> MotorResume" and rest: "MotorResume \<notin> set ops"
    using Cons.prems(3) by auto
  then have inv: "latch_invariant (perform sm opn)"
    using perform_keeps_invariant [OF Cons.prems(1,2)] by simp
  show ?case
    using Cons.IH [OF att inv rest] Cons.prems(2) by simp
qed

text \<open>
  Claim C1, as amended. With a motor controller attached to the monitor,
  \<open>trigger_emergency_stop\<close> ends at \<open>EMERGENCY\<close> with the motor latched, from any
  state and for any alert. And in every run of operations that starts with a motor
  controller attached and the latch invariant (as the monitor does after its components
  are set, at \<open>SAFE\<close>) and never calls the motor's own \<open>resume_from_emergency\<close>
  directly, every state observed at \<open>EMERGENCY\<close> has the motor latched.
\<close>

theorem latch_with_emergency:
  "(motor_controller sm \<noteq> None \<longrightarrow>
      level (safety_status (snd (trigger_emergency_stop sm alert now))) = EMERGENCY \<and>
      motor_latched (snd (trigger_emergency_stop sm alert now))) \<and>
   (motor_controller sm \<noteq> None \<and> latch_invariant sm \<and> MotorResume \<notin> set ops \<longrightarrow>
      (\<forall>s \<in> set (observed sm ops). level (safety_status s) = EMERGENCY \<longrightarrow> motor_latched s))"
proof -
  have "\<forall>s \<in> set (observed sm ops). level (safety_status s) = EMERGENCY \<longrightarrow> motor_latched s"
    if "motor_controller sm \<noteq> None" "latch_invariant sm" "MotorResume \<notin> set ops"
    using observed_invariant [OF that] by (auto simp: latch_invariant_def)
  then show ?thesis
    using trigger_status [of sm alert now] trigger_latched [of sm alert now] by blast
qed

text \<open>
  The default robot: a tick reading 5, then a \<open>move_forward\<close>, which fails. The last
  state is at \<open>EMERGENCY\<close> and latched.
\<close>

theorem latch_with_emergency_witness:
  "motor_controller (default_monitor simulated_port) \<noteq> None \<and>
   latch_invariant (default_monitor simulated_port) \<and>
   level (safety_status
     (observed (default_monitor simulated_port)
        [Tick (Some 5) 100 1 100, MoveForward (Some 40) 2] ! 2)) = EMERGENCY \<and>
   motor_latched
     (observed (default_monitor simulated_port)
        [Tick (Some 5) 100 1 100, MoveForward (Some 40) 2] ! 2)"
proof -
  let ?sm = "default_monitor simulated_port"
  let ?ops = "[Tick (Some 5) 100 1 100, MoveForward (Some 40) 2]"
  have attached: "motor_controller ?sm \<noteq> None"
    by (simp add: robot_defs)
  have inv: "latch_invariant ?sm"
    by (simp add: latch_invariant_def robot_defs)
  have lev: "level (safety_status (observed ?sm ?ops ! 2)) = EMERGENCY"
    by (simp add: robot_defs tick_defs Let_def on_motor_def move_forward_def directional_move_def)
  have mem: "observed ?sm ?ops ! 2 \<in> set (observed ?sm ?ops)"
    by (rule nth_mem) simp
  have "MotorResume \<notin> set ?ops" by simp
  with latch_with_emergency [of ?sm MANUAL_EMERGENCY 0 ?ops] attached inv
  have "\<forall>s \<in> set (observed ?sm ?ops). level (safety_status s) = EMERGENCY \<longrightarrow> motor_latched s"
    by blast
  with mem lev have "motor_latched (observed ?sm ?ops ! 2)" by blast
  with attached inv lev show ?thesis by blast
qed

text \<open>
  Claim C1 as stated fails, in two ways. A monitor whose components were never set (the
  integration manager in simulation mode skips \<open>set_robot_components\<close>) goes to
  \<open>EMERGENCY\<close> on a manual emergency stop with no motor to latch: no state of the run
  is latched. And on the default robot, a tick reading 5 latches the motor, a direct
  call of the motor's \<open>resume_from_emergency\<close> clears the latch with the level still
  at \<open>EMERGENCY\<close>, and the \<open>move_forward\<close> that follows is carried out.
\<close>

theorem emergency_without_latch:
  "map (\<lambda>s. (level (safety_status s), motor_latched s))
     (observed (SafetyMonitor_init 15 10) [ManualEmergencyStop 1])
     = [(SAFE, False), (EMERGENCY, False)] \<and>
   map (\<lambda>s. (level (safety_status s), motor_latched s,
              map_option (\<lambda>mc. is_moving (motor_state mc)) (motor_controller s)))
     (observed (default_monitor simulated_port)
        [Tick (Some 5) 100 1 100, MotorResume, MoveForward (Some 40) 2])
     = [(SAFE, False, Some False), (EMERGENCY, True, Some False),
        (EMERGENCY, False, Some False), (EMERGENCY, False, Some True)]"
  by (simp add: robot_defs tick_defs Let_def manual_emergency_stop_def on_motor_def
      resume_from_emergency_def move_forward_def directional_move_def effective_speed_def)

section \<open>The speed of a move\<close>

lemma digit_char_zero: "d < 10 \<Longrightarrow> (digit_char d = CHR ''0'') = (d = 0)"
proof -
  assume "d < 10"
  then have "d \<in> set [0..<10]" by simp
  also have "[0..<10] = [0, 1, 2, 3, 4, 5, 6, 7, 8, 9::nat]" by (simp add: upt_rec)
  finally show ?thesis by (auto simp: digit_char_def)
qed

lemma str_nat_not_empty: "str_nat n \<noteq> []"
  by (subst str_nat.simps) simp

lemma str_nat_zero: "(str_nat n = ''0'') = (n = 0)"
proof (cases "n < 10")
  case True
  then show ?thesis
    using digit_char_zero [of n] by (subst str_nat.simps) simp
next
  case False
  then have "str_nat n = str_nat (n div 10) @ [digit_char (n mod 10)]"
    by (subst str_nat.simps) simp
  moreover have "length (str_nat (n div 10)) \<noteq> 0"
    using str_nat_not_empty by simp
  ultimately have "length (str_nat n) \<noteq> 1" by simp
  then show ?thesis using False by auto
qed

lemma str_int_zero: "(str_int i = ''0'') = (i = 0)"
  by (auto simp: str_int_def str_nat_zero)

lemma send_command_written:
  "\<exists>ls. written (snd (send_command ch command expect_response)) = written ch @ ls \<and>
        set ls \<subseteq> {command}"
  by (auto simp: send_command_def split: list.splits io_outcome.splits)

lemma send_command_accepted:
  "accepts_write ch \<Longrightarrow>
   written (snd (send_command ch command expect_response)) = written ch @ [command]"
  by (auto simp: send_command_def accepts_write_def split: list.splits io_outcome.splits)

lemma directional_move_speed:
  "\<not> is_emergency_stopped mc \<Longrightarrow>
   speed (motor_state (snd (directional_move command dir mc speed_arg now))) = effective_speed mc speed_arg"
  by (simp add: directional_move_def Let_def split: prod.splits)

lemma directional_move_new_lines:
  assumes "\<not> is_emergency_stopped mc"
  shows "set (new_lines mc (snd (directional_move command dir mc speed_arg now)))
      \<subseteq> (if effective_speed mc speed_arg \<noteq> speed (motor_state mc)
           then {''SET_SPEED:'' @ str_int (effective_speed mc speed_arg)} else {}) \<union> {command}"
proof -
  let ?e = "effective_speed mc speed_arg"
  let ?set = "''SET_SPEED:'' @ str_int ?e"
  let ?mc1 = "if ?e \<noteq> speed (motor_state mc)
              then mc\<lparr>serial := snd (send_command (serial mc) ?set False),
                      motor_state := (motor_state mc)\<lparr>speed := ?e\<rparr>\<rparr>
              else mc"
  obtain ls1 where ls1: "written (serial ?mc1) = written (serial mc) @ ls1"
    "set ls1 \<subseteq> (if ?e \<noteq> speed (motor_state mc) then {?set} else {})"
    using send_command_written [of "serial mc" ?set False] by (cases "?e = speed (motor_state mc)") auto
  obtain ls2 where ls2: "written (snd (send_command (serial ?mc1) command True)) = written (serial ?mc1) @ ls2"
    "set ls2 \<subseteq> {command}"
    using send_command_written [of "serial ?mc1" command True] by blast
  have "serial (snd (directional_move command dir mc speed_arg now))
      = snd (send_command (serial ?mc1) command True)"
    using assms by (simp add: directional_move_def Let_def split: prod.splits)
  then have "new_lines mc (snd (directional_move command dir mc speed_arg now)) = ls1 @ ls2"
    using ls1(1) ls2(1) by (simp add: new_lines_def write_count_def)
  then show ?thesis using ls1(2) ls2(2) by auto
qed

lemma directional_move_first_line:
  assumes "\<not> is_emergency_stopped mc" and "accepts_write (serial mc)"
    and "effective_speed mc speed_arg \<noteq> speed (motor_state mc)"
  shows "take 1 (new_lines mc (snd (directional_move command dir mc speed_arg now)))
      = [''SET_SPEED:'' @ str_int (effective_speed mc speed_arg)]"
proof -
  let ?e = "effective_speed mc speed_arg"
  let ?set = "''SET_SPEED:'' @ str_int ?e"
  let ?mc1 = "mc\<lparr>serial := snd (send_command (serial mc) ?set False),
                  motor_state := (motor_state mc)\<lparr>speed := ?e\<rparr>\<rparr>"
  have w1: "written (serial ?mc1) = written (serial mc) @ [?set]"
    using assms(2) by (simp add: send_command_accepted)
  obtain ls2 where ls2: "written (snd (send_command (serial ?mc1) command True)) = written (serial ?mc1) @ ls2"
    using send_command_written [of "serial ?mc1" command True] by blast
  have "serial (snd (directional_move command dir mc speed_arg now))
      = snd (send_command (serial ?mc1) command True)"
    using assms(1,3) by (simp add: directional_move_def Let_def split: prod.splits)
  then have "new_lines mc (snd (directional_move command dir mc speed_arg now)) = ?set # ls2"
    using w1 ls2 by (simp add: new_lines_def write_count_def)
  then show ?thesis by simp
qed

lemma effective_speed_zero:
  "effective_speed mc speed_arg = 0 \<Longrightarrow> effective_speed mc speed_arg = speed (motor_state mc)"
  by (auto simp: effective_speed_def split: option.splits if_splits)

lemma directional_move_no_zero_speed:
  assumes "\<not> is_emergency_stopped mc" and "command \<noteq> ''SET_SPEED:0''"
  shows "''SET_SPEED:0'' \<notin> set (new_lines mc (snd (directional_move command dir mc speed_arg now)))"
proof
  assume "''SET_SPEED:0'' \<in> set (new_lines mc (snd (directional_move command dir mc speed_arg now)))"
  then have "effective_speed mc speed_arg \<noteq> speed (motor_state mc) \<and>
      ''SET_SPEED:0'' = ''SET_SPEED:'' @ str_int (effective_speed mc speed_arg)"
    using directional_move_new_lines [OF assms(1), of command dir speed_arg now] assms(2)
    by (auto split: if_splits)
  then have "effective_speed mc speed_arg \<noteq> speed (motor_state mc) \<and> effective_speed mc speed_arg = 0"
    using str_int_zero [of "effective_speed mc speed_arg"] by simp
  then show False using effective_speed_zero by blast
qed

lemma set_speed_recorded:
  "fst (set_speed mc s) \<Longrightarrow> speed (motor_state (snd (set_speed mc s))) = max 0 (min s (max_speed mc))"
  by (simp add: set_speed_def Let_def split: prod.splits if_splits)

lemma set_speed_line:
  assumes "accepts_write (serial mc)"
  shows "new_lines mc (snd (set_speed mc s))
      = [''SET_SPEED:'' @ str_int (max 0 (min s (max_speed mc)))]"
proof -
  let ?line = "''SET_SPEED:'' @ str_int (max 0 (min s (max_speed mc)))"
  obtain response ch where sc: "send_command (serial mc) ?line True = (response, ch)"
    by (cases "send_command (serial mc) ?line True")
  then have "written ch = written (serial mc) @ [?line]"
    using send_command_accepted [OF assms, of ?line True] by simp
  moreover have "serial (snd (set_speed mc s)) = ch"
    using sc by (simp add: set_speed_def Let_def)
  ultimately show ?thesis by (simp add: new_lines_def write_count_def)
qed

text \<open>
  Claim C9, as amended. For a directional move with the speed argument \<open>s\<close> on a
  controller that is not latched: the effective speed is \<open>s\<close> when \<open>s\<close> is not 0, else the current speed
  when that is not 0, else \<open>base_speed\<close>; it is the speed the move records, and, when it
  differs from the current speed and the port takes the write, the first line the move
  sends is \<open>SET_SPEED:\<close> with that speed. A nonzero \<open>s\<close> is recorded as it is, whatever
  \<open>max_speed\<close> is. A request of 0 has effective speed 0 exactly when the current speed
  and \<open>base_speed\<close> are both 0, and no move ever sends \<open>SET_SPEED:0\<close>. \<open>set_speed\<close> sends
  and, once acknowledged, records the speed clamped to the range from 0 to \<open>max_speed\<close>.
\<close>

theorem move_speed_unclamped:
  assumes "\<not> is_emergency_stopped mc"
    and "mv \<in> {move_forward, move_backward, turn_left, turn_right}"
  shows "effective_speed mc (Some s)
           = (if s \<noteq> 0 then s
              else if speed (motor_state mc) \<noteq> 0 then speed (motor_state mc)
              else base_speed mc) \<and>
         speed (motor_state (snd (mv mc (Some s) now))) = effective_speed mc (Some s) \<and>
         (accepts_write (serial mc) \<and> effective_speed mc (Some s) \<noteq> speed (motor_state mc) \<longrightarrow>
            take 1 (new_lines mc (snd (mv mc (Some s) now)))
              = [''SET_SPEED:'' @ str_int (effective_speed mc (Some s))]) \<and>
         (s \<noteq> 0 \<longrightarrow> effective_speed mc (Some s) = s \<and>
            speed (motor_state (snd (mv mc (Some s) now))) = s) \<and>
         (s = 0 \<longrightarrow>
            (effective_speed mc (Some s) = 0) = (speed (motor_state mc) = 0 \<and> base_speed mc = 0)) \<and>
         ''SET_SPEED:0'' \<notin> set (new_lines mc (snd (mv mc (Some s) now))) \<and>
         (fst (set_speed mc s) \<longrightarrow>
            speed (motor_state (snd (set_speed mc s))) = max 0 (min s (max_speed mc))) \<and>
         (accepts_write (serial mc) \<longrightarrow>
            new_lines mc (snd (set_speed mc s))
              = [''SET_SPEED:'' @ str_int (max 0 (min s (max_speed mc)))]) \<and>
         (0 \<le> max_speed mc \<longrightarrow>
            0 \<le> max 0 (min s (max_speed mc)) \<and> max 0 (min s (max_speed mc)) \<le> max_speed mc)"
proof -
  obtain command dir where mv: "mv = directional_move command dir"
    and cmd: "command \<noteq> ''SET_SPEED:0''"
    using assms(2) by (auto simp: move_forward_def move_backward_def turn_left_def turn_right_def)
  have e: "effective_speed mc (Some s)
           = (if s \<noteq> 0 then s
              else if speed (motor_state mc) \<noteq> 0 then speed (motor_state mc)
              else base_speed mc)"
    by (simp add: effective_speed_def)
  have rec: "speed (motor_state (snd (mv mc (Some s) now))) = effective_speed mc (Some s)"
    using assms(1) by (simp add: mv directional_move_speed)
  have first: "take 1 (new_lines mc (snd (mv mc (Some s) now)))
              = [''SET_SPEED:'' @ str_int (effective_speed mc (Some s))]"
    if "accepts_write (serial mc)" "effective_speed mc (Some s) \<noteq> speed (motor_state mc)"
    using directional_move_first_line [OF assms(1) that] by (simp add: mv)
  have nz: "''SET_SPEED:0'' \<notin> set (new_lines mc (snd (mv mc (Some s) now)))"
    using directional_move_no_zero_speed [OF assms(1) cmd] by (simp add: mv)
  have unclamped: "s \<noteq> 0 \<longrightarrow> effective_speed mc (Some s) = s \<and>
      speed (motor_state (snd (mv mc (Some s) now))) = s"
    using rec by (simp add: effective_speed_def)
  have zero: "s = 0 \<longrightarrow>
      (effective_speed mc (Some s) = 0) = (speed (motor_state mc) = 0 \<and> base_speed mc = 0)"
    by (auto simp: effective_speed_def)
  have first': "accepts_write (serial mc) \<and> effective_speed mc (Some s) \<noteq> speed (motor_state mc) \<longrightarrow>
      take 1 (new_lines mc (snd (mv mc (Some s) now)))
        = [''SET_SPEED:'' @ str_int (effective_speed mc (Some s))]"
    using first by blast
  have recorded: "fst (set_speed mc s) \<longrightarrow>
      speed (motor_state (snd (set_speed mc s))) = max 0 (min s (max_speed mc))"
    using set_speed_recorded [of mc s] by blast
  have line: "accepts_write (serial mc) \<longrightarrow>
      new_lines mc (snd (set_speed mc s))
        = [''SET_SPEED:'' @ str_int (max 0 (min s (max_speed mc)))]"
    using set_speed_line [of mc s] by blast
  have clamp: "0 \<le> max_speed mc \<longrightarrow>
      0 \<le> max 0 (min s (max_speed mc)) \<and> max 0 (min s (max_speed mc)) \<le> max_speed mc"
    by auto
  from e rec first' unclamped zero nz recorded line clamp
  show ?thesis by (intro conjI)
qed

text \<open>
  The default controller (\<open>base_speed\<close> 40, speed 0) on a silent port. Asked to move
  forward at 250, above the \<open>max_speed\<close> of 100: 250 is recorded and \<open>SET_SPEED:250\<close>
  is the first line sent. Asked to move forward at 0: the effective speed is 40.
\<close>

theorem move_speed_unclamped_witness:
  "\<not> is_emergency_stopped (MotorController_init 100 40 (live_port [])) \<and>
   effective_speed (MotorController_init 100 40 (live_port [])) (Some 250) = 250 \<and>
   speed (motor_state (snd (move_forward (MotorController_init 100 40 (live_port [])) (Some 250) 3))) = 250 \<and>
   take 1 (new_lines (MotorController_init 100 40 (live_port []))
             (snd (move_forward (MotorController_init 100 40 (live_port [])) (Some 250) 3)))
     = [''SET_SPEED:'' @ str_int 250] \<and>
   effective_speed (MotorController_init 100 40 (live_port [])) (Some 0) = 40 \<and>
   speed (motor_state (snd (move_forward (MotorController_init 100 40 (live_port [])) (Some 0) 3))) = 40"
  using move_speed_unclamped [of "MotorController_init 100 40 (live_port [])" move_forward 250 3]
    move_speed_unclamped [of "MotorController_init 100 40 (live_port [])" move_forward 0 3]
  by (simp add: MotorController_init_def live_port_def accepts_write_def effective_speed_def)

text \<open>
  Claim C9 as stated fails in its clause that a request of speed 0 never results in
  commanded speed 0: on a controller configured with \<open>base_speed\<close> 0 and still at
  speed 0, \<open>move_forward\<close> with the argument 0 has effective speed 0, and on a port
  that acknowledges it the move succeeds with speed 0 recorded.
\<close>

theorem zero_request_commands_zero:
  "\<not> is_emergency_stopped (MotorController_init 100 0 (live_port [Reply ''ACTION:MOVE_FORWARD''])) \<and>
   effective_speed (MotorController_init 100 0 (live_port [Reply ''ACTION:MOVE_FORWARD''])) (Some 0) = 0 \<and>
   fst (move_forward (MotorController_init 100 0 (live_port [Reply ''ACTION:MOVE_FORWARD''])) (Some 0) 3) \<and>
   motor_state (snd (move_forward
     (MotorController_init 100 0 (live_port [Reply ''ACTION:MOVE_FORWARD''])) (Some 0) 3))
     = \<lparr>direction = FORWARD, speed = 0, is_moving = True, last_command_time = 3\<rparr>"
  by (simp add: MotorController_init_def live_port_def move_forward_def directional_move_def
      effective_speed_def send_command_def acknowledged_def)

end
